theory Spec2Isabelle
  imports Main "HOL-Library.Sublist" "HOL-Library.AList"
begin

section \<open>Strings, errors and the insertion-ordered set\<close>

text \<open>
  A JavaScript string is modelled as a \<^typ>\<open>string\<close>: one \<^typ>\<open>char\<close> per code unit, over
  the code units U+0000 to U+00FF. A thrown exception is a value of type \<open>error\<close>; a computation
  has type \<open>(error + 'a) option\<close>, where \<open>None\<close> stands for a call that never returns,
  \<open>Some (Inl e)\<close> for a throw and \<open>Some (Inr v)\<close> for a normal return. \<open>Error\<close> and
  \<open>TypeError\<close> carry the message; for a \<open>TypeError\<close> that the engine raises itself (a call
  of a method that is not there, a property read on \<open>undefined\<close>) the message is the head of
  the engine's wording.
\<close>

datatype error = Error string | TypeError string

definition DEFAULT_MIN_SIZE :: int where
  "DEFAULT_MIN_SIZE = 2"

definition DEFAULT_PREFIX_ONLY :: bool where
  "DEFAULT_PREFIX_ONLY = False"

text \<open>
  \<open>String.prototype.toLowerCase\<close> on the modelled code units: the upper-case letters are
  U+0041..U+005A, U+00C0..U+00D6 and U+00D8..U+00DE, each 32 below its lower-case form. Over
  these code units lower-casing keeps the length of a text; a text with a code unit beyond
  them, where lower-casing can lengthen it (U+0130), is outside the model.
\<close>

definition toLowerChar :: "char \<Rightarrow> char" where
  "toLowerChar c =
     (let n = (of_char c :: nat)
      in if (65 \<le> n \<and> n \<le> 90) \<or> (192 \<le> n \<and> n \<le> 214) \<or> (216 \<le> n \<and> n \<le> 222)
         then char_of (n + 32) else c)"

definition toLowerCase :: "string \<Rightarrow> string" where
  "toLowerCase text = map toLowerChar text"

text \<open>
  \<open>String.prototype.slice(start, end)\<close>: a negative position counts from the end of the
  string, every position is clamped to the string, and an empty range gives the empty string.
\<close>

definition slice :: "string \<Rightarrow> int \<Rightarrow> int \<Rightarrow> string" where
  "slice text start end =
     (let len = int (length text);
          lo = (if start < 0 then max (len + start) 0 else min start len);
          hi = (if end < 0 then max (len + end) 0 else min end len)
      in take (nat (hi - lo)) (drop (nat lo) text))"

text \<open>
  A JavaScript \<open>Set\<close> of strings keeps its members in insertion order, without duplicates;
  \<open>Array.from(set)\<close> lists them in that order. The model is the list itself.
\<close>

definition set_add :: "'a \<Rightarrow> 'a list \<Rightarrow> 'a list" where
  "set_add x s = (if x \<in> set s then s else s @ [x])"

section \<open>nGrams\<close>

text \<open>The loop of the prefix mode (source lines 71 to 74).\<close>

function prefix_loop :: "string \<Rightarrow> int \<Rightarrow> int \<Rightarrow> string list \<Rightarrow> string list" where
  "prefix_loop text index msize s =
     (if msize < int (length text) + 1
      then prefix_loop text index (msize + 1) (set_add (slice text index (index + msize)) s)
      else s)"
  by pat_completeness auto
termination
  by (relation "measure (\<lambda>(text, index, msize, s). nat (int (length text) + 1 - msize))") auto

declare prefix_loop.simps [simp del]

text \<open>
  The loop of the substring mode (source lines 79 to 86). With a negative \<open>index\<close> the source
  loop decrements for ever, so the model is a partial function and \<open>None\<close> is that run.
\<close>

partial_function (option) substring_loop ::
  "string \<Rightarrow> int \<Rightarrow> int \<Rightarrow> string list \<Rightarrow> string list option" where
  "substring_loop text index msize s =
     (if msize \<le> int (length text) + 1
      then (if index \<noteq> 0
            then substring_loop text (index - 1) msize
                   (set_add (slice text (index - 1) (index - 1 + msize)) s)
            else substring_loop text (int (length text) - (msize + 1) + 1) (msize + 1) s)
      else Some s)"

declare substring_loop.simps [code]

text \<open>
  The \<open>return\<close> and \<open>throw\<close> statements of \<open>nGrams\<close>, in source order, and the guards that
  select among them. \<open>nGrams\<close> is only called on the string \<open>replaceSymbols\<close> returns, so the
  \<open>String(text)\<close> arm of line 59 is not taken and \<open>text\<close> is a string; \<open>minSize\<close> is an
  integer or absent (\<open>None\<close>).
\<close>

datatype nGrams_exit =
    ThrowMinSize | ReturnNoText | ReturnWholeText | ReturnIndexBelowOne
  | ReturnPrefixes | ReturnSubstrings

definition nGrams_minSize :: "int option \<Rightarrow> int" where
  "nGrams_minSize msize = (case msize of None \<Rightarrow> DEFAULT_MIN_SIZE | Some m \<Rightarrow> m)"

definition nGrams_index :: "string \<Rightarrow> int \<Rightarrow> bool \<Rightarrow> int" where
  "nGrams_index text msize prefixOnly =
     (if prefixOnly then 0 else int (length text) - msize + 1)"

definition nGrams_branch :: "string \<Rightarrow> int option \<Rightarrow> bool \<Rightarrow> nGrams_exit" where
  "nGrams_branch text msize prefixOnly =
     (let m = nGrams_minSize msize in
      if m \<le> 0 then ThrowMinSize
      else if text = [] then ReturnNoText
      else let t = toLowerCase text; index = nGrams_index t m prefixOnly in
        if int (length t) \<le> m then ReturnWholeText
        else if \<not> prefixOnly \<and> index < 1 then ReturnIndexBelowOne
        else if prefixOnly then ReturnPrefixes
        else ReturnSubstrings)"

definition nGrams :: "string \<Rightarrow> int option \<Rightarrow> bool \<Rightarrow> (error + string list) option" where
  "nGrams text msize prefixOnly =
     (let m = nGrams_minSize msize;
          t = toLowerCase text;
          index = nGrams_index t m prefixOnly
      in case nGrams_branch text msize prefixOnly of
           ThrowMinSize \<Rightarrow> Some (Inl (Error ''minSize must be greater than 0.''))
         | ReturnNoText \<Rightarrow> Some (Inr [])
         | ReturnWholeText \<Rightarrow> Some (Inr [t])
         | ReturnIndexBelowOne \<Rightarrow> Some (Inr [])
         | ReturnPrefixes \<Rightarrow> Some (Inr (prefix_loop t index m []))
         | ReturnSubstrings \<Rightarrow> map_option Inr (substring_loop t index m []))"

section \<open>Data values\<close>

text \<open>
  The values that documents and update payloads hold: JSON data and \<open>undefined\<close>, numbers
  being the integers. An object is the list of its own properties in insertion order.
\<close>

datatype jsval =
    JUndefined | JNull | JBool bool | JNum int | JStr string
  | JArr "jsval list" | JObj "(string \<times> jsval) list"

fun truthy :: "jsval \<Rightarrow> bool" where
  "truthy JUndefined = False"
| "truthy JNull = False"
| "truthy (JBool b) = b"
| "truthy (JNum n) = (n \<noteq> 0)"
| "truthy (JStr s) = (s \<noteq> [])"
| "truthy (JArr xs) = True"
| "truthy (JObj kvs) = True"

text \<open>
  What a property read returns: a data value, or a member that the value read from inherits
  from its prototype chain and that is no data (\<open>Native\<close>, with the member's name): a built-in
  function or, for \<open>__proto__\<close>, the prototype object. A \<open>Native\<close> value is truthy, is neither
  a string nor an array, and has no member \<open>split\<close> or \<open>forEach\<close>.
\<close>

datatype prop_value = Data jsval | Native string

fun truthy_value :: "prop_value \<Rightarrow> bool" where
  "truthy_value (Data v) = truthy v"
| "truthy_value (Native n) = True"

text \<open>
  The string-keyed members of the built-in prototypes, as of ECMAScript 2023 with its
  annex B. Every object inherits those of \<open>Object.prototype\<close>; a string, an array, a number
  and a boolean inherit those of their own prototype first.
\<close>

definition object_prototype_names :: "string list" where
  "object_prototype_names =
     [''constructor'', ''__defineGetter__'', ''__defineSetter__'', ''hasOwnProperty'',
      ''__lookupGetter__'', ''__lookupSetter__'', ''isPrototypeOf'', ''propertyIsEnumerable'',
      ''toString'', ''valueOf'', ''__proto__'', ''toLocaleString'']"

definition string_prototype_names :: "string list" where
  "string_prototype_names =
     [''constructor'', ''anchor'', ''at'', ''big'', ''blink'', ''bold'', ''charAt'',
      ''charCodeAt'', ''codePointAt'', ''concat'', ''endsWith'', ''fontcolor'', ''fontsize'',
      ''fixed'', ''includes'', ''indexOf'', ''isWellFormed'', ''italics'', ''lastIndexOf'',
      ''link'', ''localeCompare'', ''match'', ''matchAll'', ''normalize'', ''padEnd'',
      ''padStart'', ''repeat'', ''replace'', ''replaceAll'', ''search'', ''slice'', ''small'',
      ''split'', ''strike'', ''sub'', ''substr'', ''substring'', ''sup'', ''startsWith'',
      ''toString'', ''toWellFormed'', ''trim'', ''trimStart'', ''trimLeft'', ''trimEnd'',
      ''trimRight'', ''toLocaleLowerCase'', ''toLocaleUpperCase'', ''toLowerCase'',
      ''toUpperCase'', ''valueOf'']"

definition array_prototype_names :: "string list" where
  "array_prototype_names =
     [''constructor'', ''at'', ''concat'', ''copyWithin'', ''fill'', ''find'', ''findIndex'',
      ''findLast'', ''findLastIndex'', ''lastIndexOf'', ''pop'', ''push'', ''reverse'',
      ''shift'', ''unshift'', ''slice'', ''sort'', ''splice'', ''includes'', ''indexOf'',
      ''join'', ''keys'', ''entries'', ''values'', ''forEach'', ''filter'', ''flat'',
      ''flatMap'', ''map'', ''every'', ''some'', ''reduce'', ''reduceRight'',
      ''toLocaleString'', ''toString'', ''toReversed'', ''toSorted'', ''toSpliced'', ''with'']"

definition number_prototype_names :: "string list" where
  "number_prototype_names =
     [''constructor'', ''toExponential'', ''toFixed'', ''toPrecision'', ''toString'',
      ''valueOf'', ''toLocaleString'']"

definition boolean_prototype_names :: "string list" where
  "boolean_prototype_names = [''constructor'', ''toString'', ''valueOf'']"

text \<open>
  The members an object inherits, as a table from names to values. A plain object, such as an
  update payload, inherits \<open>object_prototype\<close>.
\<close>

definition object_prototype :: "(string \<times> prop_value) list" where
  "object_prototype = map (\<lambda>n. (n, Native n)) object_prototype_names"

text \<open>
  \<open>obj[key]\<close> on an object with the own properties \<open>obj\<close> that inherits the members \<open>proto\<close>:
  an own property hides an inherited member, and a name that is neither reads as
  \<open>undefined\<close>. \<open>get_own\<close> is the read of a name that no prototype has; \<open>put\<close> is
  \<open>obj[key] = value\<close>.
\<close>

definition get :: "(string \<times> prop_value) list \<Rightarrow> (string \<times> jsval) list \<Rightarrow> string \<Rightarrow> prop_value" where
  "get proto obj key =
     (case map_of obj key of
        Some v \<Rightarrow> Data v
      | None \<Rightarrow> (case map_of proto key of Some m \<Rightarrow> m | None \<Rightarrow> Data JUndefined))"

definition get_own :: "(string \<times> jsval) list \<Rightarrow> string \<Rightarrow> jsval" where
  "get_own obj key = (case map_of obj key of None \<Rightarrow> JUndefined | Some v \<Rightarrow> v)"

definition put :: "(string \<times> jsval) list \<Rightarrow> string \<Rightarrow> jsval \<Rightarrow> (string \<times> jsval) list" where
  "put obj key v = AList.update key v obj"

text \<open>
  \<open>isObject\<close> (source line 146): a truthy value whose \<open>constructor\<close> is \<open>Object\<close> and that
  has an own key. An own property named \<open>constructor\<close> hides the inherited one.
\<close>

fun isObject :: "jsval \<Rightarrow> bool" where
  "isObject (JObj kvs) = (map_of kvs ''constructor'' = None \<and> 0 < length kvs)"
| "isObject v = False"

text \<open>The decimal numeral of an array index, and the index a property key names.\<close>

fun string_of_nat :: "nat \<Rightarrow> string" where
  "string_of_nat n =
     (if n < 10 then [char_of (48 + n)]
      else string_of_nat (n div 10) @ [char_of (48 + n mod 10)])"

definition index_of_key :: "string \<Rightarrow> nat \<Rightarrow> nat option" where
  "index_of_key key n = find (\<lambda>i. string_of_nat i = key) [0..<n]"

text \<open>
  \<open>data[key]\<close> on any data value: it throws on \<open>undefined\<close> and \<open>null\<close>; a string and an
  array own \<open>length\<close> and their indices; a number and a boolean own nothing; a name that is
  not an own property is looked up in the prototype chain.
\<close>

definition inherited :: "string list \<Rightarrow> string \<Rightarrow> prop_value" where
  "inherited names key =
     (if key \<in> set names \<or> key \<in> set object_prototype_names then Native key
      else Data JUndefined)"

fun property :: "jsval \<Rightarrow> string \<Rightarrow> error + prop_value" where
  "property JUndefined key = Inl (TypeError ''Cannot read properties of undefined'')"
| "property JNull key = Inl (TypeError ''Cannot read properties of null'')"
| "property (JObj kvs) key = Inr (get object_prototype kvs key)"
| "property (JStr s) key =
     Inr (if key = ''length'' then Data (JNum (int (length s)))
          else case index_of_key key (length s) of
                 Some i \<Rightarrow> Data (JStr [s ! i])
               | None \<Rightarrow> inherited string_prototype_names key)"
| "property (JArr xs) key =
     Inr (if key = ''length'' then Data (JNum (int (length xs)))
          else case index_of_key key (length xs) of
                 Some i \<Rightarrow> Data (xs ! i)
               | None \<Rightarrow> inherited array_prototype_names key)"
| "property (JBool b) key = Inr (inherited boolean_prototype_names key)"
| "property (JNum n) key = Inr (inherited number_prototype_names key)"

section \<open>replaceSymbols and makeNGrams\<close>

text \<open>
  The character class of source line 128; inside it \<open>,-\.\<close> is the range from the comma to
  the full stop. The three characters given by code are the double quote, the single quote
  and the backslash.
\<close>

definition special_characters :: "char list" where
  "special_characters =
     [CHR ''!'', CHR 0x22, CHR ''#'', CHR ''%'', CHR ''&'', CHR 0x27, CHR ''('', CHR '')'',
      CHR ''*'', CHR ''+'', CHR '','', CHR ''-'', CHR ''.'', CHR ''/'', CHR '':'', CHR '';'',
      CHR ''<'', CHR ''='', CHR ''>'', CHR ''?'', CHR ''@'', CHR ''['', CHR 0x5C, CHR '']'',
      CHR ''^'', CHR 0x60, CHR ''{'', CHR ''|'', CHR ''}'', CHR ''~'']"

definition replaceSymbols :: "string \<Rightarrow> bool \<Rightarrow> string" where
  "replaceSymbols text escapeSpecialCharacters =
     (let t1 = toLowerCase text;
          t2 = (if escapeSpecialCharacters
                then filter (\<lambda>c. c \<notin> set special_characters) t1 else t1)
      in map (\<lambda>c. if c = CHR ''_'' then CHR '' '' else c) t2)"

text \<open>\<open>text.split(" ")\<close>: the pieces between the separators, empty pieces kept.\<close>

fun split_on :: "char \<Rightarrow> string \<Rightarrow> string list" where
  "split_on sep [] = [[]]"
| "split_on sep (c # cs) =
     (if c = sep then [] # split_on sep cs
      else (case split_on sep cs of
              [] \<Rightarrow> [[c]]
            | w # ws \<Rightarrow> (c # w) # ws))"

text \<open>\<open>Array.prototype.map\<close> with a callback that may throw or not return.\<close>

fun map_result :: "('a \<Rightarrow> (error + 'b) option) \<Rightarrow> 'a list \<Rightarrow> (error + 'b list) option" where
  "map_result f [] = Some (Inr [])"
| "map_result f (x # xs) =
     (case f x of
        None \<Rightarrow> None
      | Some (Inl e) \<Rightarrow> Some (Inl e)
      | Some (Inr y) \<Rightarrow>
          (case map_result f xs of
             None \<Rightarrow> None
           | Some (Inl e) \<Rightarrow> Some (Inl e)
           | Some (Inr ys) \<Rightarrow> Some (Inr (y # ys))))"

text \<open>\<open>Array.from(new Set(result))\<close>.\<close>

definition from_set :: "'a list \<Rightarrow> 'a list" where
  "from_set result = fold set_add result []"

text \<open>
  \<open>makeNGrams\<close> (source line 99). \<open>text\<close> is any data value; a truthy value that is not a
  string has no callable \<open>split\<close>. \<open>escapeSpecialCharacters\<close> and \<open>prefixOnly\<close> are used
  for their truth value only; \<open>minSize\<close> is an integer or absent.
\<close>

definition or_default_min_size :: "int option \<Rightarrow> int" where
  "or_default_min_size msize =
     (case msize of None \<Rightarrow> DEFAULT_MIN_SIZE
      | Some m \<Rightarrow> if m = 0 then DEFAULT_MIN_SIZE else m)"

definition makeNGrams ::
  "jsval \<Rightarrow> bool \<Rightarrow> int option \<Rightarrow> bool \<Rightarrow> (error + string list) option" where
  "makeNGrams text escapeSpecialCharacters msize prefixOnly =
     (if \<not> truthy text then Some (Inr [])
      else case text of
        JStr s \<Rightarrow>
          (case map_result
                  (\<lambda>q. nGrams (replaceSymbols q escapeSpecialCharacters)
                          (Some (or_default_min_size msize))
                          (prefixOnly \<or> DEFAULT_PREFIX_ONLY))
                  (split_on CHR '' '' s) of
             None \<Rightarrow> None
           | Some (Inl e) \<Rightarrow> Some (Inl e)
           | Some (Inr arrs) \<Rightarrow> Some (Inr (from_set (concat arrs))))
      | _ \<Rightarrow> Some (Inl (TypeError ''text.split is not a function'')))"

text \<open>\<open>makeNGrams\<close> on what a property read returned.\<close>

fun makeNGrams_value ::
  "prop_value \<Rightarrow> bool \<Rightarrow> int option \<Rightarrow> bool \<Rightarrow> (error + string list) option" where
  "makeNGrams_value (Data v) esc msize pfx = makeNGrams v esc msize pfx"
| "makeNGrams_value (Native n) esc msize pfx =
     Some (Inl (TypeError ''text.split is not a function''))"

section \<open>Field specifications and the schema\<close>

text \<open>
  An element of \<open>options.fields\<close> (source lines 191 to 208 name the three kinds): a string,
  an object with at least the key \<open>name\<close>, or anything else. Of an object the plugin reads
  \<open>name\<close> (a string), \<open>keys\<close> (a string, an array of strings, or another truthy value,
  \<open>KeysOther\<close>), \<open>weight\<close> and \<open>minSize\<close> (integers), \<open>prefixOnly\<close> and
  \<open>escapeSpecialCharacters\<close> (booleans); \<open>None\<close> is an absent key.
\<close>

datatype keys_value = KeysString string | KeysArray "string list" | KeysOther

record field_object =
  name :: string
  keys :: "keys_value option"
  weight :: "int option"
  minSize :: "int option"
  prefixOnly :: "bool option"
  escapeSpecialCharacters :: "bool option"

datatype field_item = FieldName string | FieldObject field_object | FieldOther

fun keys_truthy :: "keys_value option \<Rightarrow> bool" where
  "keys_truthy None = False"
| "keys_truthy (Some (KeysString s)) = (s \<noteq> [])"
| "keys_truthy (Some (KeysArray ks)) = True"
| "keys_truthy (Some KeysOther) = True"

definition fuzzy :: "string \<Rightarrow> string" where
  "fuzzy n = n @ ''_fuzzy''"

text \<open>
  What the plugin does to the schema: the paths it adds (\<open>StringArrayPath\<close> is the type
  \<open>[String]\<close> of \<open>addToSchema\<close>, \<open>MixedPath\<close> the \<open>Mixed\<close> type of \<open>addArrayToSchema\<close>), the
  indexes it declares, the \<open>toObject\<close> and \<open>toJSON\<close> options, the hooks and the statics.
\<close>

datatype path_type = StringArrayPath | MixedPath

record text_index =
  index_fields :: "(string \<times> string) list"
  index_weights :: "(string \<times> int) list"
  index_language_override :: "string option"

record return_options =
  transform :: "(string \<times> jsval) list \<Rightarrow> (string \<times> jsval) list"
  getters :: bool
  setters :: bool

record schema =
  paths :: "(string \<times> path_type) list"
  indexes :: "text_index list"
  toObject :: "return_options option"
  toJSON :: "return_options option"
  pre_hooks :: "string list"
  statics :: "string list"

definition addToSchema :: "string \<Rightarrow> string \<times> path_type" where
  "addToSchema n = (fuzzy n, StringArrayPath)"

definition addArrayToSchema :: "string \<Rightarrow> string \<times> path_type" where
  "addArrayToSchema n = (fuzzy n, MixedPath)"

definition schema_add :: "string \<times> path_type \<Rightarrow> schema \<Rightarrow> schema" where
  "schema_add p sch = sch\<lparr>paths := AList.update (fst p) (snd p) (paths sch)\<rparr>"

text \<open>\<open>Array.prototype.forEach\<close> over a state, with a callback that may throw.\<close>

fun forEach :: "('a \<Rightarrow> 's \<Rightarrow> error + 's) \<Rightarrow> 'a list \<Rightarrow> 's \<Rightarrow> error + 's" where
  "forEach f [] st = Inr st"
| "forEach f (x # xs) st = (case f x st of Inl e \<Rightarrow> Inl e | Inr st' \<Rightarrow> forEach f xs st')"

fun forEach_result ::
  "('a \<Rightarrow> 's \<Rightarrow> (error + 's) option) \<Rightarrow> 'a list \<Rightarrow> 's \<Rightarrow> (error + 's) option" where
  "forEach_result f [] st = Some (Inr st)"
| "forEach_result f (x # xs) st =
     (case f x st of
        None \<Rightarrow> None
      | Some (Inl e) \<Rightarrow> Some (Inl e)
      | Some (Inr st') \<Rightarrow> forEach_result f xs st')"

text \<open>
  \<open>createFields\<close> (source line 218); \<open>fs\<close> is its parameter \<open>fields\<close>. The state of its loop
  is the schema and the local objects \<open>indexes\<close> and \<open>weights\<close>. \<open>item.keys.forEach\<close>
  exists on an array only.
\<close>

fun createFields_item ::
  "field_item \<Rightarrow> schema \<times> (string \<times> string) list \<times> (string \<times> int) list \<Rightarrow>
   error + schema \<times> (string \<times> string) list \<times> (string \<times> int) list" where
  "createFields_item (FieldName item) (sch, ixs, wts) =
     Inr (schema_add (addToSchema item) sch, AList.update (fuzzy item) ''text'' ixs, wts)"
| "createFields_item (FieldObject item) (sch, ixs, wts) =
     (if keys_truthy (keys item) then
        (case keys item of
           Some (KeysArray ks) \<Rightarrow>
             Inr (schema_add (addArrayToSchema (name item)) sch,
                  fold (\<lambda>key ixs'. AList.update (fuzzy (name item) @ ''.'' @ fuzzy key) ''text'' ixs')
                    ks ixs,
                  wts)
         | _ \<Rightarrow> Inl (TypeError ''item.keys.forEach is not a function''))
      else
        Inr (schema_add (addToSchema (name item)) sch,
             AList.update (fuzzy (name item)) ''text'' ixs,
             (case weight item of
                Some w \<Rightarrow> if w \<noteq> 0 then AList.update (fuzzy (name item)) w wts else wts
              | None \<Rightarrow> wts)))"
| "createFields_item FieldOther (sch, ixs, wts) =
     Inl (TypeError ''Fields items must be String or Object.'')"

definition createFields :: "schema \<Rightarrow> field_item list \<Rightarrow> string option \<Rightarrow> error + schema" where
  "createFields sch fs language_override =
     (case forEach createFields_item fs (sch, [], []) of
        Inl e \<Rightarrow> Inl e
      | Inr (sch', ixs, wts) \<Rightarrow>
          Inr (sch'\<lparr>indexes := indexes sch' @
                 [\<lparr>index_fields = ixs, index_weights = wts,
                   index_language_override =
                     (case language_override of
                        Some l \<Rightarrow> if l \<noteq> [] then Some l else None
                      | None \<Rightarrow> None)\<rparr>]\<rparr>))"

section \<open>createNGrams\<close>

text \<open>The array of strings \<open>makeNGrams\<close> returns, as a data value.\<close>

definition tokens :: "string list \<Rightarrow> jsval" where
  "tokens ts = JArr (map JStr ts)"

text \<open>
  The body of \<open>item.keys.forEach\<close> (source lines 272 to 281), on the object \<open>obj\<close> built so
  far for one element \<open>data\<close> of the array.
\<close>

definition nested_key ::
  "field_object \<Rightarrow> bool \<Rightarrow> jsval \<Rightarrow> string \<Rightarrow> (string \<times> jsval) list \<Rightarrow>
   (error + (string \<times> jsval) list) option" where
  "nested_key item esc data key obj =
     (case property data key of
        Inl e \<Rightarrow> Some (Inl e)
      | Inr v \<Rightarrow>
          (case makeNGrams_value v esc (minSize item) (prefixOnly item = Some True) of
             None \<Rightarrow> None
           | Some (Inl e) \<Rightarrow> Some (Inl e)
           | Some (Inr ts) \<Rightarrow> Some (Inr (put obj (fuzzy key) (tokens ts)))))"

text \<open>The body of \<open>attributes[item.name].forEach\<close> (source lines 270 to 283).\<close>

definition nested_element :: "field_object \<Rightarrow> bool \<Rightarrow> jsval \<Rightarrow> (error + jsval) option" where
  "nested_element item esc data =
     (case keys item of
        Some (KeysArray ks) \<Rightarrow>
          (case forEach_result (nested_key item esc data) ks [] of
             None \<Rightarrow> None
           | Some (Inl e) \<Rightarrow> Some (Inl e)
           | Some (Inr obj) \<Rightarrow> Some (Inr (JObj obj)))
      | _ \<Rightarrow> Some (Inl (TypeError ''item.keys.forEach is not a function'')))"

text \<open>
  The body of \<open>fields.forEach\<close> in \<open>createNGrams\<close> (source lines 260 to 294). \<open>attributes\<close> is
  an object, given by its own properties and by the members \<open>proto\<close> it inherits; \<open>forEach\<close>
  exists on an array only. For a string item the three further arguments of \<open>makeNGrams\<close>
  are \<open>undefined\<close>.
\<close>

definition assign_tokens ::
  "(string \<times> jsval) list \<Rightarrow> string \<Rightarrow> (error + string list) option \<Rightarrow>
   (error + (string \<times> jsval) list) option" where
  "assign_tokens attributes key r =
     (case r of
        None \<Rightarrow> None
      | Some (Inl e) \<Rightarrow> Some (Inl e)
      | Some (Inr ts) \<Rightarrow> Some (Inr (put attributes key (tokens ts))))"

fun createNGrams_item ::
  "(string \<times> prop_value) list \<Rightarrow> field_item \<Rightarrow> (string \<times> jsval) list \<Rightarrow>
   (error + (string \<times> jsval) list) option" where
  "createNGrams_item proto (FieldName item) attributes =
     (if truthy_value (get proto attributes item)
      then assign_tokens attributes (fuzzy item)
             (makeNGrams_value (get proto attributes item) False None False)
      else Some (Inr attributes))"
| "createNGrams_item proto (FieldObject item) attributes =
     (let esc = (escapeSpecialCharacters item \<noteq> Some False) in
      if keys_truthy (keys item) \<and> truthy_value (get proto attributes (name item)) then
        (case get proto attributes (name item) of
           Data (JArr ds) \<Rightarrow>
             (case map_result (nested_element item esc) ds of
                None \<Rightarrow> None
              | Some (Inl e) \<Rightarrow> Some (Inl e)
              | Some (Inr attrs) \<Rightarrow> Some (Inr (put attributes (fuzzy (name item)) (JArr attrs))))
         | _ \<Rightarrow> Some (Inl (TypeError ''attributes[item.name].forEach is not a function'')))
      else if truthy_value (get proto attributes (name item)) then
        assign_tokens attributes (fuzzy (name item))
          (makeNGrams_value (get proto attributes (name item)) esc (minSize item)
             (prefixOnly item = Some True))
      else Some (Inr attributes))"
| "createNGrams_item proto FieldOther attributes = Some (Inr attributes)"

text \<open>
  \<open>createNGrams\<close> on an object that inherits the members \<open>proto\<close> (the save hook passes the
  document, the update hooks pass the update payload), and on a plain object.
\<close>

definition createNGrams_with ::
  "(string \<times> prop_value) list \<Rightarrow> (string \<times> jsval) list \<Rightarrow> field_item list \<Rightarrow>
   (error + (string \<times> jsval) list) option" where
  "createNGrams_with proto attributes fs = forEach_result (createNGrams_item proto) fs attributes"

definition createNGrams ::
  "(string \<times> jsval) list \<Rightarrow> field_item list \<Rightarrow> (error + (string \<times> jsval) list) option" where
  "createNGrams attributes fs = createNGrams_with object_prototype attributes fs"

section \<open>removeFuzzyElements\<close>

fun removeFuzzyElements_item :: "field_item \<Rightarrow> (string \<times> jsval) list \<Rightarrow> (string \<times> jsval) list" where
  "removeFuzzyElements_item (FieldName item) ret = AList.delete (fuzzy item) ret"
| "removeFuzzyElements_item (FieldObject item) ret = AList.delete (fuzzy (name item)) ret"
| "removeFuzzyElements_item FieldOther ret = ret"

definition removeFuzzyElements ::
  "field_item list \<Rightarrow> (string \<times> jsval) list \<Rightarrow> (string \<times> jsval) list" where
  "removeFuzzyElements fs ret = fold removeFuzzyElements_item fs ret"

section \<open>The plugin\<close>

text \<open>
  The \<open>options\<close> argument of the plugin: \<open>fields\<close> is absent or falsy (\<open>None\<close>), an array,
  or a truthy value that is not an array (\<open>FieldsOther\<close>).
\<close>

datatype fields_value = FieldsArray "field_item list" | FieldsOther

record plugin_options =
  opt_fields :: "fields_value option"
  opt_language_override :: "string option"

text \<open>The check of source lines 331 to 339 on one item.\<close>

fun check_keys :: "field_item \<Rightarrow> unit \<Rightarrow> error + unit" where
  "check_keys (FieldObject item) u =
     (if keys_truthy (keys item) \<and> keys item = Some KeysOther
      then Inl (TypeError ''Key must be an array or a string.'') else Inr u)"
| "check_keys item u = Inr u"

text \<open>
  \<open>module.exports\<close> (source line 322). The three hooks run \<open>createNGrams\<close> and the static
  \<open>fuzzySearch\<close> is the function of the next section; the schema records their names.
\<close>

definition plugin :: "schema \<Rightarrow> plugin_options option \<Rightarrow> error + schema" where
  "plugin sch options =
     (case options of
        None \<Rightarrow> Inl (Error ''You must set at least one field for fuzzy search.'')
      | Some opts \<Rightarrow>
          (case opt_fields opts of
             None \<Rightarrow> Inl (Error ''You must set at least one field for fuzzy search.'')
           | Some FieldsOther \<Rightarrow> Inl (TypeError ''Fields must be an array.'')
           | Some (FieldsArray fs) \<Rightarrow>
               (case forEach check_keys fs () of
                  Inl e \<Rightarrow> Inl e
                | Inr u \<Rightarrow>
                    (case createFields sch fs (opt_language_override opts) of
                       Inl e \<Rightarrow> Inl e
                     | Inr sch' \<Rightarrow>
                         (let returnOptions =
                                \<lparr>transform = removeFuzzyElements fs, getters = True, setters = True\<rparr>
                          in Inr (sch'\<lparr>toObject := Some returnOptions,
                                       toJSON := Some returnOptions,
                                       pre_hooks := pre_hooks sch' @
                                         [''save'', ''update'', ''findOneAndUpdate''],
                                       statics := statics sch' @ [''fuzzySearch'']\<rparr>))))))"

section \<open>fuzzySearch\<close>

text \<open>
  An argument of \<open>fuzzySearch\<close> is a data value or a function. The call returns the query
  that \<open>Model.find\<close> builds: the filter given to \<open>where\<close> and the callback.
\<close>

datatype arg = Value jsval | Function nat

datatype search = TextSearch string | AndSearch string "(string \<times> jsval) list"

record find_call =
  where_search :: search
  callback :: "nat option"

definition arg_at :: "arg list \<Rightarrow> nat \<Rightarrow> arg" where
  "arg_at args i = (if i < length args then args ! i else Value JUndefined)"

fun is_string_arg :: "arg \<Rightarrow> bool" where
  "is_string_arg (Value (JStr s)) = True"
| "is_string_arg a = False"

fun isObject_arg :: "arg \<Rightarrow> bool" where
  "isObject_arg (Value v) = isObject v"
| "isObject_arg (Function f) = False"

text \<open>
  A property of the first argument. \<open>fuzzySearch\<close> reads \<open>query\<close>, \<open>prefixOnly\<close> and
  \<open>minSize\<close>, names that no prototype has, so the own properties decide.
\<close>

fun get_arg :: "arg \<Rightarrow> string \<Rightarrow> jsval" where
  "get_arg (Value (JObj kvs)) key = get_own kvs key"
| "get_arg a key = JUndefined"

text \<open>\<open>makeNGrams\<close> on an argument: a function is truthy and has no \<open>split\<close>.\<close>

fun makeNGrams_arg :: "arg \<Rightarrow> bool \<Rightarrow> int option \<Rightarrow> bool \<Rightarrow> (error + string list) option" where
  "makeNGrams_arg (Value v) esc msize pfx = makeNGrams v esc msize pfx"
| "makeNGrams_arg (Function f) esc msize pfx =
     Some (Inl (TypeError ''text.split is not a function''))"

text \<open>
  The \<open>minSize\<close> of a query object as the number \<open>makeNGrams\<close> computes with: an integer is
  itself and \<open>true\<close> counts as 1 in every comparison and sum of \<open>nGrams\<close>; \<open>undefined\<close>,
  \<open>null\<close>, \<open>false\<close> and the empty string are falsy, so \<open>minSize || DEFAULT_MIN_SIZE\<close> makes
  the default of them as of an absent size. A non-empty string, an array or an object as
  size is outside the model and is read as absent.
\<close>

fun number_option :: "jsval \<Rightarrow> int option" where
  "number_option (JNum n) = Some n"
| "number_option (JBool True) = Some 1"
| "number_option v = None"

fun join :: "string \<Rightarrow> string list \<Rightarrow> string" where
  "join sep [] = []"
| "join sep [x] = x"
| "join sep (x # y # ys) = x @ sep @ join sep (y # ys)"

definition fuzzySearch :: "arg list \<Rightarrow> (error + find_call) option" where
  "fuzzySearch args =
     (if length args = 0 \<and> (\<not> is_string_arg (arg_at args 0) \<or> \<not> isObject_arg (arg_at args 0))
      then Some (Inl (TypeError
        ''Fuzzy Search: First argument is mandatory and must be a string or an object.''))
      else
        let queryString = (if isObject_arg (arg_at args 0)
                           then Value (get_arg (arg_at args 0) ''query'') else arg_at args 0);
            checkPrefixOnly = (if isObject_arg (arg_at args 0)
                               then truthy (get_arg (arg_at args 0) ''prefixOnly'')
                               else DEFAULT_PREFIX_ONLY);
            defaultNgamMinSize = (if isObject_arg (arg_at args 0)
                                  then number_option (get_arg (arg_at args 0) ''minSize'')
                                  else Some DEFAULT_MIN_SIZE)
        in case makeNGrams_arg queryString False defaultNgamMinSize checkPrefixOnly of
             None \<Rightarrow> None
           | Some (Inl e) \<Rightarrow> Some (Inl e)
           | Some (Inr ts) \<Rightarrow>
               (let query = join '' '' ts;
                    callback1 = (case arg_at args 1 of Function f \<Rightarrow> Some f | Value v \<Rightarrow> None);
                    options = (case arg_at args 1 of
                                 Value (JObj kvs) \<Rightarrow> if isObject (JObj kvs) then Some kvs else None
                               | _ \<Rightarrow> None);
                    callback2 = (case callback1 of
                                   None \<Rightarrow> (case arg_at args 2 of
                                               Function f \<Rightarrow> Some f | Value v \<Rightarrow> None)
                                 | Some f \<Rightarrow> Some f)
                in Some (Inr \<lparr>where_search =
                                (case options of
                                   None \<Rightarrow> TextSearch query
                                 | Some opts \<Rightarrow> AndSearch query opts),
                              callback = callback2\<rparr>)))"

section \<open>Sets used in the statements\<close>

text \<open>
  The substrings the substring loop still has to add when it stands at \<open>index = i\<close> with
  \<open>minSize = n\<close>: the windows of length \<open>n\<close> that start before \<open>i\<close>, and every longer
  substring.
\<close>

definition windows :: "string \<Rightarrow> nat \<Rightarrow> nat \<Rightarrow> string set" where
  "windows t n i = {take n (drop j t) | j. j < i}"

definition longer :: "string \<Rightarrow> nat \<Rightarrow> string set" where
  "longer t n = {take L (drop j t) | L j. n < L \<and> j + L \<le> length t}"

text \<open>
  The source attribute a field specification names (\<open>attributes[item]\<close> for a string,
  \<open>attributes[item.name]\<close> for an object), and the synthetic attributes of a field list.
\<close>

fun source_attribute :: "field_item \<Rightarrow> string option" where
  "source_attribute (FieldName item) = Some item"
| "source_attribute (FieldObject item) = Some (name item)"
| "source_attribute FieldOther = None"

definition fuzzy_attributes :: "field_item list \<Rightarrow> string list" where
  "fuzzy_attributes fs = map fuzzy (List.map_filter source_attribute fs)"

section \<open>Lemmas on strings and the loops\<close>

lemma length_toLowerCase [simp]: "length (toLowerCase text) = length text"
  by (simp add: toLowerCase_def)

lemma toLowerCase_Nil [simp]: "toLowerCase [] = []"
  by (simp add: toLowerCase_def)

lemma toLowerChar_idem: "toLowerChar (toLowerChar c) = toLowerChar c"
  by (auto simp: toLowerChar_def Let_def)

lemma slice_window:
  "i \<le> length t \<Longrightarrow> slice t (int i) (int i + int n) = take n (drop i t)"
  by (auto simp: slice_def Let_def min_def)

lemma set_set_add [simp]: "set (set_add x s) = insert x (set s)"
  by (auto simp: set_add_def)

lemma distinct_set_add [simp]: "distinct (set_add x s) = distinct s"
  by (auto simp: set_add_def)

lemma substring_loop_exit:
  "int (length t) + 1 < m \<Longrightarrow> substring_loop t i m s = Some s"
  by (subst substring_loop.simps) simp

lemma substring_loop_step:
  "m \<le> int (length t) + 1 \<Longrightarrow> i \<noteq> 0 \<Longrightarrow>
   substring_loop t i m s = substring_loop t (i - 1) m (set_add (slice t (i - 1) (i - 1 + m)) s)"
  by (subst substring_loop.simps) simp

lemma substring_loop_next:
  "m \<le> int (length t) + 1 \<Longrightarrow>
   substring_loop t 0 m s = substring_loop t (int (length t) - (m + 1) + 1) (m + 1) s"
  by (subst substring_loop.simps) simp

lemma windows_0 [simp]: "windows t n 0 = {}"
  by (simp add: windows_def)

lemma windows_Suc: "windows t n (Suc i) = insert (take n (drop i t)) (windows t n i)"
  by (auto simp: windows_def less_Suc_eq)

lemma longer_step:
  "n \<le> length t \<Longrightarrow> longer t n = windows t (Suc n) (length t - n) \<union> longer t (Suc n)"
  unfolding longer_def windows_def
  apply (intro set_eqI iffI)
   apply clarsimp
  subgoal for L j
    apply (cases "L = Suc n")
     apply auto
    done
  apply auto
  apply (metis Suc_leI add_Suc_right less_diff_conv lessI less_imp_le_nat)
  using Suc_lessD by blast

lemma longer_empty: "length t < n \<Longrightarrow> longer t n = {}"
  by (auto simp: longer_def)

lemma sub_loop:
  "k = length t + 1 - m \<Longrightarrow> 1 \<le> m \<Longrightarrow> i + m \<le> length t + 1 \<Longrightarrow>
   \<exists>r. substring_loop t (int i) (int m) s = Some r \<and>
       set r = set s \<union> windows t m i \<union> longer t m \<and> (distinct s \<longrightarrow> distinct r)"
proof (induction k arbitrary: m i s)
  case 0
  then have m: "m = length t + 1" and i: "i = 0" by auto
  have "substring_loop t (int i) (int m) s = substring_loop t (int (length t) - (int m + 1) + 1) (int m + 1) s"
    using substring_loop_next[of "int m" t s] m i by simp
  also have "\<dots> = Some s"
    by (rule substring_loop_exit) (simp add: m)
  finally show ?case by (simp add: i m longer_empty)
next
  case (Suc k)
  then have m: "m \<le> length t" by auto
  note outer = Suc.IH
  have k: "k = length t + 1 - Suc m"
    using Suc.prems(1) by simp
  from Suc.prems(3) show ?case
  proof (induction i arbitrary: s)
    case 0
    have e1: "int (length t) - (int m + 1) + 1 = int (length t - m)"
      using m by simp
    have "m \<le> length t + 1"
      using m by simp
    then have "substring_loop t (int 0) (int m) s =
          substring_loop t (int (length t - m)) (int (Suc m)) s"
      using substring_loop_next[of "int m" t s, unfolded e1] by (simp add: add.commute)
    moreover obtain r where "substring_loop t (int (length t - m)) (int (Suc m)) s = Some r"
      "set r = set s \<union> windows t (Suc m) (length t - m) \<union> longer t (Suc m)" "distinct s \<longrightarrow> distinct r"
      using outer[of "Suc m" "length t - m" s, OF k] m by auto
    ultimately show ?case
      using longer_step[OF m] by auto
  next
    case (Suc i)
    have il: "i \<le> length t" using Suc.prems by simp
    have "substring_loop t (int (Suc i)) (int m) s =
          substring_loop t (int i) (int m) (set_add (slice t (int i) (int i + int m)) s)"
      using substring_loop_step[of "int m" t "int (Suc i)" s] m by simp
    also have "\<dots> = substring_loop t (int i) (int m) (set_add (take m (drop i t)) s)"
      by (simp add: slice_window[OF il])
    finally have st: "substring_loop t (int (Suc i)) (int m) s =
       substring_loop t (int i) (int m) (set_add (take m (drop i t)) s)" .
    obtain r where "substring_loop t (int i) (int m) (set_add (take m (drop i t)) s) = Some r"
      "set r = set (set_add (take m (drop i t)) s) \<union> windows t m i \<union> longer t m"
      "distinct (set_add (take m (drop i t)) s) \<longrightarrow> distinct r"
      using Suc.IH[of "set_add (take m (drop i t)) s"] Suc.prems by auto
    then show ?case
      unfolding st by (auto simp: windows_Suc)
  qed
qed

lemma sublist_window:
  "sublist s t \<longleftrightarrow> (\<exists>j. j + length s \<le> length t \<and> s = take (length s) (drop j t))"
proof
  assume "sublist s t"
  then obtain ps ss where "t = ps @ s @ ss"
    by (auto simp: sublist_def)
  then have "length ps + length s \<le> length t \<and> s = take (length s) (drop (length ps) t)"
    by simp
  then show "\<exists>j. j + length s \<le> length t \<and> s = take (length s) (drop j t)" ..
next
  assume "\<exists>j. j + length s \<le> length t \<and> s = take (length s) (drop j t)"
  then obtain j where j: "j + length s \<le> length t" "s = take (length s) (drop j t)"
    by blast
  have "t = take j t @ take (length s) (drop j t) @ drop (length s) (drop j t)"
    by (metis append_take_drop_id)
  then have "t = take j t @ s @ drop (length s) (drop j t)"
    using j(2) by simp
  then show "sublist s t"
    unfolding sublist_def by blast
qed

lemma windows_longer_sublist:
  assumes "1 \<le> m" "m \<le> length t"
  shows "windows t m (length t - m + 1) \<union> longer t m = {s. sublist s t \<and> m \<le> length s}"
proof (intro set_eqI iffI)
  fix s assume "s \<in> windows t m (length t - m + 1) \<union> longer t m"
  then consider j where "j < length t - m + 1" "s = take m (drop j t)"
    | L j where "m < L" "j + L \<le> length t" "s = take L (drop j t)"
    by (auto simp: windows_def longer_def)
  then show "s \<in> {s. sublist s t \<and> m \<le> length s}"
  proof cases
    case 1
    then have "length s = m" "j + length s \<le> length t"
      using assms by auto
    then show ?thesis
      using 1(2) sublist_window[of s t] by auto
  next
    case 2
    then have "length s = L" by auto
    then show ?thesis
      using 2 sublist_window[of s t] by auto
  qed
next
  fix s assume "s \<in> {s. sublist s t \<and> m \<le> length s}"
  then obtain j where j: "j + length s \<le> length t" "s = take (length s) (drop j t)" "m \<le> length s"
    using sublist_window[of s t] by auto
  show "s \<in> windows t m (length t - m + 1) \<union> longer t m"
  proof (cases "length s = m")
    case True
    then have "j < length t - m + 1" "s = take m (drop j t)"
      using j by auto
    then show ?thesis by (auto simp: windows_def)
  next
    case False
    then have "m < length s" using j(3) by simp
    then show ?thesis
      using j(1,2) by (auto simp: longer_def)
  qed
qed

lemma sublist_full: "sublist s t \<Longrightarrow> length t \<le> length s \<Longrightarrow> s = t"
  by (auto simp: sublist_def)

lemma prefix_loop_set:
  "0 \<le> m \<Longrightarrow>
   set (prefix_loop t 0 m s) = set s \<union> {take (nat L) t | L. m \<le> L \<and> L \<le> int (length t)} \<and>
   (distinct s \<longrightarrow> distinct (prefix_loop t 0 m s))"
proof (induction t "0::int" m s rule: prefix_loop.induct)
  case (1 t m s)
  show ?case
  proof (cases "m < int (length t) + 1")
    case True
    have sl: "slice t 0 m = take (nat m) t"
      using True 1(2) by (auto simp: slice_def Let_def min_def)
    have split: "{take (nat L) t | L. m \<le> L \<and> L \<le> int (length t)} =
        insert (take (nat m) t) {take (nat L) t | L. m + 1 \<le> L \<and> L \<le> int (length t)}"
      using True by (auto simp: order_le_less) 
    have "prefix_loop t 0 m s = prefix_loop t 0 (m + 1) (set_add (take (nat m) t) s)"
      using True by (subst prefix_loop.simps) (simp add: sl)
    then show ?thesis
      using 1(1)[OF True] 1(2) by (simp add: sl split)
  next
    case False
    then have "prefix_loop t 0 m s = s"
      by (subst prefix_loop.simps) simp
    then show ?thesis
      using False by auto
  qed
qed

section \<open>Lemmas on nGrams\<close>

lemma nGrams_branch_cases:
  "nGrams_branch text ms p =
     (if nGrams_minSize ms \<le> 0 then ThrowMinSize
      else if text = [] then ReturnNoText
      else if int (length text) \<le> nGrams_minSize ms then ReturnWholeText
      else if p then ReturnPrefixes else ReturnSubstrings)"
  by (simp add: nGrams_branch_def nGrams_index_def Let_def)

lemma nGrams_substring_mode:
  assumes "text \<noteq> []" "1 \<le> m" "m < length text"
  shows "\<exists>r. nGrams text (Some (int m)) False = Some (Inr r) \<and> distinct r \<and>
             set r = {s. sublist s (toLowerCase text) \<and> m \<le> length s}"
proof -
  let ?t = "toLowerCase text"
  have idx: "nGrams_index ?t (int m) False = int (length text - m + 1)"
    using assms by (simp add: nGrams_index_def)
  have br: "nGrams_branch text (Some (int m)) False = ReturnSubstrings"
    using assms by (simp add: nGrams_branch_cases nGrams_minSize_def)
  have ng: "nGrams text (Some (int m)) False =
            map_option Inr (substring_loop ?t (int (length text - m + 1)) (int m) [])"
    by (simp only: nGrams_def Let_def br nGrams_minSize_def option.case nGrams_exit.case idx)
  obtain r where r: "substring_loop ?t (int (length text - m + 1)) (int m) [] = Some r"
    "set r = set [] \<union> windows ?t m (length text - m + 1) \<union> longer ?t m"
    "distinct [] \<longrightarrow> distinct r"
    using sub_loop[of "length ?t + 1 - m" ?t m "length text - m + 1" "[]"] assms by auto
  have "set r = {s. sublist s ?t \<and> m \<le> length s}"
    using r(2) windows_longer_sublist[of m ?t] assms by simp
  then show ?thesis
    using r ng by simp
qed

lemma nGrams_whole_text:
  assumes "text \<noteq> []" "0 < m" "int (length text) \<le> m"
  shows "nGrams text (Some m) p = Some (Inr [toLowerCase text])"
  using assms by (simp add: nGrams_def nGrams_branch_cases nGrams_minSize_def)

lemma nGrams_substrings_core:
  assumes "text \<noteq> []" "1 \<le> m" "m \<le> int (length text)"
  shows "\<exists>r. nGrams text (Some m) False = Some (Inr r) \<and> distinct r \<and>
             set r = {s. sublist s (toLowerCase text) \<and>
                         m \<le> int (length s) \<and> length s \<le> length text}"
proof (cases "m = int (length text)")
  case True
  have "{s. sublist s (toLowerCase text) \<and> m \<le> int (length s) \<and> length s \<le> length text}
        = {toLowerCase text}"
    using True sublist_full[of _ "toLowerCase text"] by auto
  then show ?thesis
    using nGrams_whole_text[of "text" m False] assms True by simp
next
  case False
  then have lt: "nat m < length text" "1 \<le> nat m" "int (nat m) = m"
    using assms by auto
  have len: "\<And>s. sublist s (toLowerCase text) \<Longrightarrow> length s \<le> length text"
    using sublist_length_le by fastforce
  obtain r where "nGrams text (Some (int (nat m))) False = Some (Inr r)" "distinct r"
    "set r = {s. sublist s (toLowerCase text) \<and> nat m \<le> length s}"
    using nGrams_substring_mode[OF assms(1) lt(2) lt(1)] by blast
  moreover have "{s. sublist s (toLowerCase text) \<and> nat m \<le> length s} =
     {s. sublist s (toLowerCase text) \<and> m \<le> int (length s) \<and> length s \<le> length text}"
    using len lt(3) by auto
  ultimately show ?thesis
    using lt(3) by auto
qed

lemma nGrams_prefixes_core:
  assumes "1 \<le> m" "m < int (length text)"
  shows "\<exists>r. nGrams text (Some m) True = Some (Inr r) \<and> distinct r \<and>
             set r = {take (nat L) (toLowerCase text) | L. m \<le> L \<and> L \<le> int (length text)}"
proof -
  have "text \<noteq> []" using assms by auto
  then have "nGrams text (Some m) True = Some (Inr (prefix_loop (toLowerCase text) 0 m []))"
    using assms by (simp add: nGrams_def nGrams_branch_cases nGrams_minSize_def nGrams_index_def)
  then show ?thesis
    using prefix_loop_set[of m "toLowerCase text" "[]"] assms by simp
qed


lemma toLowerChar_underscore:
  "toLowerChar (if toLowerChar c = CHR ''_'' then CHR '' '' else toLowerChar c) =
   (if toLowerChar c = CHR ''_'' then CHR '' '' else toLowerChar c)"
  by (simp add: toLowerChar_idem) (simp add: toLowerChar_def)

lemma replaceSymbols_lower: "toLowerCase (replaceSymbols w e) = replaceSymbols w e"
  by (induction w) (auto simp: replaceSymbols_def toLowerCase_def Let_def toLowerChar_underscore toLowerChar_idem)

section \<open>Claims on nGrams\<close>

text \<open>
  C1. For every non-empty normalized text (a normalized text is lower-case, see
  \<open>replaceSymbols_lower\<close>, and \<open>nGrams\<close> is called on normalized text only) and every integer
  \<open>minSize\<close> from 1 to the length of the text, \<open>nGrams\<close> in substring mode returns, without
  duplicates, exactly the contiguous substrings of the text whose length lies between
  \<open>minSize\<close> and the length of the text: every such substring is a member and every member is
  such a substring.
\<close>

theorem nGrams_substrings:
  assumes "text \<noteq> []" "toLowerCase text = text" "1 \<le> m" "m \<le> int (length text)"
  shows "\<exists>r. nGrams text (Some m) False = Some (Inr r) \<and> distinct r \<and>
             set r = {s. sublist s text \<and> m \<le> int (length s) \<and> length s \<le> length text}"
  using nGrams_substrings_core[OF assms(1,3,4)] assms(2) by simp

text \<open>The theorem at the text \<open>abc\<close> with \<open>minSize = 2\<close>.\<close>

theorem nGrams_substrings_witness:
  "''abc'' \<noteq> [] \<and> toLowerCase ''abc'' = ''abc'' \<and> (1::int) \<le> 2 \<and> 2 \<le> int (length ''abc'') \<and>
   nGrams ''abc'' (Some 2) False = Some (Inr [''bc'', ''ab'', ''abc'']) \<and>
   distinct [''bc'', ''ab'', ''abc''] \<and>
   set [''bc'', ''ab'', ''abc''] =
     {s. sublist s ''abc'' \<and> 2 \<le> int (length s) \<and> length s \<le> length ''abc''}"
proof -
  have e: "nGrams ''abc'' (Some 2) False = Some (Inr [''bc'', ''ab'', ''abc''])"
    by code_simp
  have l: "toLowerCase ''abc'' = ''abc''"
    by code_simp
  obtain r where "nGrams ''abc'' (Some 2) False = Some (Inr r)" "distinct r"
    "set r = {s. sublist s ''abc'' \<and> 2 \<le> int (length s) \<and> length s \<le> length ''abc''}"
    using nGrams_substrings[of "''abc''" 2] l by auto
  then show ?thesis
    using e l by simp
qed

text \<open>
  C2. For every integer \<open>minSize\<close> of at least 1 and every normalized text longer than
  \<open>minSize\<close>, \<open>nGrams\<close> in prefix mode returns, without duplicates, exactly the prefixes
  \<open>text[0:L]\<close> of the text for every length \<open>L\<close> from \<open>minSize\<close> to the length of the text,
  and nothing else.
\<close>

theorem nGrams_prefixes:
  assumes "toLowerCase text = text" "1 \<le> m" "m < int (length text)"
  shows "\<exists>r. nGrams text (Some m) True = Some (Inr r) \<and> distinct r \<and>
             set r = {take (nat L) text | L. m \<le> L \<and> L \<le> int (length text)}"
  using nGrams_prefixes_core[OF assms(2,3)] assms(1) by simp

text \<open>The theorem at the text \<open>abc\<close> with \<open>minSize = 1\<close>.\<close>

theorem nGrams_prefixes_witness:
  "toLowerCase ''abc'' = ''abc'' \<and> (1::int) \<le> 1 \<and> 1 < int (length ''abc'') \<and>
   nGrams ''abc'' (Some 1) True = Some (Inr [''a'', ''ab'', ''abc'']) \<and>
   distinct [''a'', ''ab'', ''abc''] \<and>
   set [''a'', ''ab'', ''abc''] =
     {take (nat L) ''abc'' | L. 1 \<le> L \<and> L \<le> int (length ''abc'')}"
proof -
  have e: "nGrams ''abc'' (Some 1) True = Some (Inr [''a'', ''ab'', ''abc''])"
    by code_simp
  have l: "toLowerCase ''abc'' = ''abc''"
    by code_simp
  obtain r where "nGrams ''abc'' (Some 1) True = Some (Inr r)" "distinct r"
    "set r = {take (nat L) ''abc'' | L. 1 \<le> L \<and> L \<le> int (length ''abc'')}"
    using nGrams_prefixes[of "''abc''" 1] l by auto
  then show ?thesis
    using e l by simp
qed

text \<open>
  C5. For every text, the empty one included, and every integer \<open>minSize\<close> of at most 0,
  \<open>nGrams\<close> throws the error of source line 52; the exit taken is the first one, before the
  text is looked at.
\<close>

theorem nGrams_minSize_not_positive:
  assumes "m \<le> 0"
  shows "nGrams text (Some m) p = Some (Inl (Error ''minSize must be greater than 0.'')) \<and>
         nGrams_branch text (Some m) p = ThrowMinSize"
  using assms by (simp add: nGrams_def nGrams_branch_cases nGrams_minSize_def)

text \<open>The theorem at the empty text with \<open>minSize = 0\<close>.\<close>

theorem nGrams_minSize_not_positive_witness:
  "(0::int) \<le> 0 \<and>
   nGrams [] (Some 0) True = Some (Inl (Error ''minSize must be greater than 0.'')) \<and>
   nGrams_branch [] (Some 0) True = ThrowMinSize"
  using nGrams_minSize_not_positive[of 0 "[]" True] by simp

text \<open>
  C6. For every non-empty normalized text (a normalized text is lower-case, see
  \<open>replaceSymbols_lower\<close>) and every integer \<open>minSize\<close> of at least 1 that is at least the
  length of the text, \<open>nGrams\<close> returns exactly the one-element array holding the text, in
  substring mode and in prefix mode.
\<close>

theorem nGrams_short_text:
  assumes "text \<noteq> []" "toLowerCase text = text" "1 \<le> m" "int (length text) \<le> m"
  shows "nGrams text (Some m) p = Some (Inr [text])"
  using nGrams_whole_text[of "text" m p] assms by simp

text \<open>The theorem at the normalized form of \<open>A-b\<close> with \<open>minSize = 2\<close>.\<close>

theorem nGrams_short_text_witness:
  "replaceSymbols ''A-b'' True \<noteq> [] \<and>
   toLowerCase (replaceSymbols ''A-b'' True) = replaceSymbols ''A-b'' True \<and>
   (1::int) \<le> 2 \<and> int (length (replaceSymbols ''A-b'' True)) \<le> 2 \<and>
   nGrams (replaceSymbols ''A-b'' True) (Some 2) False = Some (Inr [replaceSymbols ''A-b'' True])"
proof -
  have r: "replaceSymbols ''A-b'' True = ''ab''"
    by code_simp
  have l: "toLowerCase ''ab'' = ''ab''"
    by code_simp
  show ?thesis
    unfolding r using nGrams_short_text[of "''ab''" 2 False] l by simp
qed

text \<open>
  C9. The return of source line 67, guarded by \<open>!prefixOnly && index < 1\<close>, is taken for no
  input. For every non-empty text and every \<open>minSize\<close> of at least 1 below the length of the
  text, in substring mode \<open>index\<close> is at least 1 at the guard, and the function does not
  return the empty array.
\<close>

theorem nGrams_index_guard_dead:
  assumes "text \<noteq> []" "1 \<le> m" "m < int (length text)"
  shows "(\<forall>t ms p. nGrams_branch t ms p \<noteq> ReturnIndexBelowOne) \<and>
         nGrams_index (toLowerCase text) m False = int (length text) - m + 1 \<and>
         1 \<le> nGrams_index (toLowerCase text) m False \<and>
         nGrams text (Some m) False \<noteq> Some (Inr [])"
proof -
  have "toLowerCase text \<in> {s. sublist s (toLowerCase text) \<and>
          m \<le> int (length s) \<and> length s \<le> length text}"
    using assms by simp
  moreover obtain r where "nGrams text (Some m) False = Some (Inr r)"
    "set r = {s. sublist s (toLowerCase text) \<and> m \<le> int (length s) \<and> length s \<le> length text}"
    using nGrams_substrings_core[of "text" m] assms by auto
  ultimately have "nGrams text (Some m) False \<noteq> Some (Inr [])"
    by auto
  then show ?thesis
    using assms by (simp add: nGrams_branch_cases nGrams_index_def)
qed

text \<open>The theorem at the text \<open>abc\<close> with \<open>minSize = 2\<close>.\<close>

theorem nGrams_index_guard_dead_witness:
  "''abc'' \<noteq> [] \<and> (1::int) \<le> 2 \<and> 2 < int (length ''abc'') \<and>
   (\<forall>t ms p. nGrams_branch t ms p \<noteq> ReturnIndexBelowOne) \<and>
   nGrams_index (toLowerCase ''abc'') 2 False = int (length ''abc'') - 2 + 1 \<and>
   1 \<le> nGrams_index (toLowerCase ''abc'') 2 False \<and>
   nGrams ''abc'' (Some 2) False \<noteq> Some (Inr [])"
  using nGrams_index_guard_dead[of "''abc''" 2] by simp

section \<open>Lemmas on makeNGrams\<close>









section \<open>Claims on makeNGrams\<close>



section \<open>Lemmas on createNGrams, removeFuzzyElements and fuzzySearch\<close>

lemma forEach_result_append:
  "forEach_result f (xs @ ys) st =
     (case forEach_result f xs st of
        None \<Rightarrow> None
      | Some (Inl e) \<Rightarrow> Some (Inl e)
      | Some (Inr st') \<Rightarrow> forEach_result f ys st')"
  by (induction xs arbitrary: st) (auto split: option.splits sum.splits)

lemma delete_filter: "AList.delete k xs = filter (\<lambda>kv. fst kv \<noteq> k) xs"
  by (induction xs) auto

lemma removeFuzzyElements_item_filter:
  "removeFuzzyElements_item item ret =
     filter (\<lambda>kv. Some (fst kv) \<noteq> map_option fuzzy (source_attribute item)) ret"
  by (cases item) (simp_all add: delete_filter)

lemma fuzzy_attributes_Cons:
  "k \<in> set (fuzzy_attributes (item # fs)) \<longleftrightarrow>
     Some k = map_option fuzzy (source_attribute item) \<or> k \<in> set (fuzzy_attributes fs)"
  by (cases item) (auto simp: fuzzy_attributes_def List.map_filter_simps)

lemma removeFuzzyElements_filter:
  "removeFuzzyElements fs ret = filter (\<lambda>kv. fst kv \<notin> set (fuzzy_attributes fs)) ret"
proof -
  have "fold removeFuzzyElements_item fs ret =
        filter (\<lambda>kv. fst kv \<notin> set (fuzzy_attributes fs)) ret"
  proof (induction fs arbitrary: ret)
    case Nil
    show ?case by (simp add: fuzzy_attributes_def List.map_filter_simps)
  next
    case (Cons item fs)
    have "fold removeFuzzyElements_item (item # fs) ret =
          filter (\<lambda>kv. fst kv \<notin> set (fuzzy_attributes fs))
            (filter (\<lambda>kv. Some (fst kv) \<noteq> map_option fuzzy (source_attribute item)) ret)"
      by (simp add: Cons.IH removeFuzzyElements_item_filter)
    also have "\<dots> = filter (\<lambda>kv. fst kv \<notin> set (fuzzy_attributes (item # fs))) ret"
      unfolding filter_filter by (rule filter_cong) (auto simp: fuzzy_attributes_Cons)
    finally show ?case .
  qed
  then show ?thesis by (simp add: removeFuzzyElements_def)
qed

lemma makeNGrams_empty_string: "makeNGrams (JStr []) e ms p = Some (Inr [])"
  by (simp add: makeNGrams_def)

lemma get_absent:
  "map_of attributes n = None \<Longrightarrow> map_of proto n = None \<Longrightarrow> get proto attributes n = Data JUndefined"
  by (simp add: get_def)

lemma get_own_property: "map_of obj key = Some v \<Longrightarrow> get proto obj key = Data v"
  by (simp add: get_def)

lemma get_not_inherited:
  "map_of proto key = None \<Longrightarrow> get proto obj key = Data (get_own obj key)"
  by (simp add: get_def get_own_def split: option.splits)

lemma object_prototype_None:
  "map_of object_prototype n = None \<longleftrightarrow> n \<notin> set object_prototype_names"
  by (simp add: object_prototype_def map_of_eq_None_iff image_image)

lemma createNGrams_item_absent:
  assumes "source_attribute item = Some n" "map_of attributes n = None" "map_of proto n = None"
  shows "createNGrams_item proto item attributes = Some (Inr attributes)"
  using assms by (cases item) (simp_all add: get_absent Let_def)

lemma createNGrams_item_keys:
  assumes "createNGrams_item proto item attributes = Some (Inr attributes')"
    and "map_of attributes' k \<noteq> None"
  shows "map_of attributes k \<noteq> None \<or> k \<in> set (fuzzy_attributes [item])"
proof (cases item)
  case (FieldName x)
  then show ?thesis
    using assms
    by (auto simp: assign_tokens_def put_def update_conv' fuzzy_attributes_def
        List.map_filter_simps split: if_splits option.splits sum.splits)
next
  case (FieldObject x)
  then show ?thesis
    using assms
    by (auto simp: assign_tokens_def put_def update_conv' fuzzy_attributes_def Let_def
        List.map_filter_simps split: if_splits option.splits sum.splits prop_value.splits jsval.splits)
next
  case FieldOther
  then show ?thesis using assms by simp
qed

lemma fuzzy_attributes_single:
  "k \<in> set (fuzzy_attributes [item]) \<Longrightarrow> k \<in> set (fuzzy_attributes (item # fs))"
  by (simp add: fuzzy_attributes_Cons fuzzy_attributes_def List.map_filter_simps split: option.splits)

lemma createNGrams_with_keys:
  assumes "createNGrams_with proto attributes0 fs = Some (Inr attributes)"
    and "map_of attributes k \<noteq> None"
  shows "map_of attributes0 k \<noteq> None \<or> k \<in> set (fuzzy_attributes fs)"
  using assms
proof (induction fs arbitrary: attributes0)
  case Nil
  then show ?case by (simp add: createNGrams_with_def)
next
  case (Cons item fs)
  from Cons.prems(1) obtain a1 where
    a1: "createNGrams_item proto item attributes0 = Some (Inr a1)"
    and r: "createNGrams_with proto a1 fs = Some (Inr attributes)"
    by (auto simp: createNGrams_with_def split: option.splits sum.splits)
  from Cons.IH[OF r Cons.prems(2)] have "map_of a1 k \<noteq> None \<or> k \<in> set (fuzzy_attributes fs)" .
  then show ?case
  proof
    assume "map_of a1 k \<noteq> None"
    then have "map_of attributes0 k \<noteq> None \<or> k \<in> set (fuzzy_attributes [item])"
      using createNGrams_item_keys[OF a1] by blast
    then show ?thesis
      using fuzzy_attributes_single by blast
  next
    assume "k \<in> set (fuzzy_attributes fs)"
    then show ?thesis
      by (simp add: fuzzy_attributes_Cons)
  qed
qed

lemma fuzzySearch_keys_not_inherited:
  "map_of object_prototype ''query'' = None"
  "map_of object_prototype ''prefixOnly'' = None"
  "map_of object_prototype ''minSize'' = None"
  by code_simp+

section \<open>Claims on the document indexer, the output transform, the search and the plugin\<close>

text \<open>
  C7 (amended). Let the source attribute that a field specification names be absent from the
  proposed attribute set, be no synthetic attribute \<open><name>_fuzzy\<close> of a specification
  earlier in the list, and be no member that the attribute set inherits from its prototype.
  When the indexer reaches the specification it skips it: the step returns the attribute set
  unchanged, so no fuzzy attribute is written for it and nothing is thrown by it, and the
  indexer goes on with the remaining specifications exactly as if the skipped one were not in
  the list.
\<close>

theorem createNGrams_absent_skipped:
  assumes "source_attribute item = Some n"
    and "map_of attributes0 n = None"
    and "n \<notin> set (fuzzy_attributes before)"
    and "map_of proto n = None"
    and "createNGrams_with proto attributes0 before = Some (Inr attributes)"
  shows "createNGrams_item proto item attributes = Some (Inr attributes) \<and>
         createNGrams_with proto attributes0 (before @ item # rest) =
           createNGrams_with proto attributes rest \<and>
         createNGrams_with proto attributes0 (before @ item # rest) =
           createNGrams_with proto attributes0 (before @ rest)"
proof -
  have "map_of attributes n = None"
    using createNGrams_with_keys[OF assms(5), of n] assms(2,3) by blast
  then have "createNGrams_item proto item attributes = Some (Inr attributes)"
    using createNGrams_item_absent assms(1,4) by blast
  then show ?thesis
    using assms(5) by (simp add: createNGrams_with_def forEach_result_append)
qed

text \<open>
  The theorem at the payload \<open>{title: "Ab"}\<close> and the fields \<open>title\<close> and \<open>tags\<close>: \<open>title\<close> is
  indexed, the nested specification \<open>tags\<close> after it is skipped.
\<close>

theorem createNGrams_absent_skipped_witness:
  "source_attribute (FieldObject \<lparr>name = ''tags'', keys = Some (KeysArray [''label'']),
      weight = None, minSize = None, prefixOnly = None, escapeSpecialCharacters = None\<rparr>)
     = Some ''tags'' \<and>
   map_of [(''title'', JStr ''Ab'')] ''tags'' = None \<and>
   ''tags'' \<notin> set (fuzzy_attributes [FieldName ''title'']) \<and>
   map_of object_prototype ''tags'' = None \<and>
   createNGrams_with object_prototype [(''title'', JStr ''Ab'')] [FieldName ''title'']
     = Some (Inr [(''title'', JStr ''Ab''), (''title_fuzzy'', JArr [JStr ''ab''])]) \<and>
   createNGrams_item object_prototype
     (FieldObject \<lparr>name = ''tags'', keys = Some (KeysArray [''label'']),
      weight = None, minSize = None, prefixOnly = None, escapeSpecialCharacters = None\<rparr>)
     [(''title'', JStr ''Ab''), (''title_fuzzy'', JArr [JStr ''ab''])]
     = Some (Inr [(''title'', JStr ''Ab''), (''title_fuzzy'', JArr [JStr ''ab''])]) \<and>
   createNGrams_with object_prototype [(''title'', JStr ''Ab'')]
     ([FieldName ''title''] @
      FieldObject \<lparr>name = ''tags'', keys = Some (KeysArray [''label'']),
      weight = None, minSize = None, prefixOnly = None, escapeSpecialCharacters = None\<rparr> # [])
     = Some (Inr [(''title'', JStr ''Ab''), (''title_fuzzy'', JArr [JStr ''ab''])])"
proof -
  let ?item = "FieldObject \<lparr>name = ''tags'', keys = Some (KeysArray [''label'']),
      weight = None, minSize = None, prefixOnly = None, escapeSpecialCharacters = None\<rparr>"
  let ?a0 = "[(''title'', JStr ''Ab'')]"
  let ?a1 = "[(''title'', JStr ''Ab''), (''title_fuzzy'', JArr [JStr ''ab''])]"
  have h1: "source_attribute ?item = Some ''tags''"
    by simp
  have h2: "map_of ?a0 ''tags'' = None"
    by simp
  have h3: "''tags'' \<notin> set (fuzzy_attributes [FieldName ''title''])"
    by code_simp
  have h4: "map_of object_prototype ''tags'' = None"
    by code_simp
  have h5: "createNGrams_with object_prototype ?a0 [FieldName ''title''] = Some (Inr ?a1)"
    by code_simp
  have e: "createNGrams_with object_prototype ?a1 [] = Some (Inr ?a1)"
    by (simp add: createNGrams_with_def)
  note t = createNGrams_absent_skipped[OF h1 h2 h3 h4 h5, of "[]"]
  from t have "createNGrams_item object_prototype ?item ?a1 = Some (Inr ?a1)"
    by (rule conjunct1)
  moreover from t have "createNGrams_with object_prototype ?a0 ([FieldName ''title''] @ ?item # [])
      = Some (Inr ?a1)"
    unfolding e by (rule conjunct1[OF conjunct2])
  ultimately show ?thesis
    using h1 h2 h3 h4 h5 by (intro conjI)
qed

text \<open>
  C7 as stated fails at the payload \<open>{title: "ab"}\<close>. With the fields \<open>title\<close> and
  \<open>title_fuzzy\<close> the second source attribute is absent from the payload, but the first
  specification writes it and the second then throws on the array. With the field
  \<open>constructor\<close> the read returns the inherited function, and \<open>makeNGrams\<close> throws.
\<close>

theorem createNGrams_absent_counterexample:
  "map_of [(''title'', JStr ''ab'')] ''title_fuzzy'' = None \<and>
   createNGrams [(''title'', JStr ''ab'')] [FieldName ''title'', FieldName ''title_fuzzy'']
     = Some (Inl (TypeError ''text.split is not a function'')) \<and>
   map_of [(''title'', JStr ''ab'')] ''constructor'' = None \<and>
   createNGrams [(''title'', JStr ''ab'')] [FieldName ''constructor'']
     = Some (Inl (TypeError ''text.split is not a function''))"
  by code_simp

text \<open>
  C8 (amended). For every field list and every document, the output transform returns the
  document without the synthetic attribute \<open><name>_fuzzy\<close> of every configured field
  (simple, weighted and nested alike) and with every other attribute unchanged and in place;
  it is a total function. Consequently the result holds no synthetic attribute of a configured
  field; it holds no attribute name ending in \<open>_fuzzy\<close> at all when every such attribute of
  the document is the synthetic attribute of a configured field.
\<close>

theorem removeFuzzyElements_removes:
  "removeFuzzyElements fs ret = filter (\<lambda>kv. fst kv \<notin> set (fuzzy_attributes fs)) ret \<and>
   set (fuzzy_attributes fs) \<inter> fst ` set (removeFuzzyElements fs ret) = {} \<and>
   ((\<forall>key \<in> fst ` set ret. suffix ''_fuzzy'' key \<longrightarrow> key \<in> set (fuzzy_attributes fs)) \<longrightarrow>
    (\<forall>key \<in> fst ` set (removeFuzzyElements fs ret). \<not> suffix ''_fuzzy'' key))"
  unfolding removeFuzzyElements_filter by auto

text \<open>The theorem at the fields \<open>title\<close> and \<open>tags\<close> and a document holding both synthetic attributes.\<close>

theorem removeFuzzyElements_removes_witness:
  "fuzzy_attributes [FieldName ''title'', FieldObject \<lparr>name = ''tags'',
       keys = Some (KeysArray [''label'']), weight = None, minSize = None, prefixOnly = None,
       escapeSpecialCharacters = None\<rparr>] = [''title_fuzzy'', ''tags_fuzzy''] \<and>
   removeFuzzyElements [FieldName ''title'', FieldObject \<lparr>name = ''tags'',
       keys = Some (KeysArray [''label'']), weight = None, minSize = None, prefixOnly = None,
       escapeSpecialCharacters = None\<rparr>]
     [(''title'', JStr ''Hello''), (''title_fuzzy'', JArr [JStr ''he'']), (''tags_fuzzy'', JArr [])]
     = [(''title'', JStr ''Hello'')] \<and>
   list_all (\<lambda>key. \<not> suffix ''_fuzzy'' key)
     (map fst (removeFuzzyElements [FieldName ''title'', FieldObject \<lparr>name = ''tags'',
       keys = Some (KeysArray [''label'']), weight = None, minSize = None, prefixOnly = None,
       escapeSpecialCharacters = None\<rparr>]
     [(''title'', JStr ''Hello''), (''title_fuzzy'', JArr [JStr ''he'']), (''tags_fuzzy'', JArr [])]))"
proof -
  let ?fs = "[FieldName ''title'', FieldObject \<lparr>name = ''tags'',
       keys = Some (KeysArray [''label'']), weight = None, minSize = None, prefixOnly = None,
       escapeSpecialCharacters = None\<rparr>]"
  let ?ret = "[(''title'', JStr ''Hello''), (''title_fuzzy'', JArr [JStr ''he'']),
       (''tags_fuzzy'', JArr [])]"
  have fa: "fuzzy_attributes ?fs = [''title_fuzzy'', ''tags_fuzzy'']"
    by code_simp
  have nt: "\<not> suffix ''_fuzzy'' ''title''"
    by code_simp
  have hyp: "\<forall>key \<in> fst ` set ?ret. suffix ''_fuzzy'' key \<longrightarrow> key \<in> set (fuzzy_attributes ?fs)"
    unfolding fa using nt by simp
  have r: "removeFuzzyElements ?fs ?ret = [(''title'', JStr ''Hello'')]"
    by code_simp
  have "\<forall>key \<in> fst ` set (removeFuzzyElements ?fs ?ret). \<not> suffix ''_fuzzy'' key"
    using removeFuzzyElements_removes[of ?fs ?ret] hyp by blast
  then have "list_all (\<lambda>key. \<not> suffix ''_fuzzy'' key) (map fst (removeFuzzyElements ?fs ?ret))"
    by (simp add: list_all_iff)
  then show ?thesis
    using fa r by (intro conjI)
qed

text \<open>
  C8 as stated fails at the field list \<open>[title]\<close> and a document with an attribute
  \<open>is_fuzzy\<close> of its own: the attribute stays, and its name ends in \<open>_fuzzy\<close>.
\<close>

theorem removeFuzzyElements_counterexample:
  "removeFuzzyElements [FieldName ''title'']
     [(''title'', JStr ''Hello''), (''title_fuzzy'', JArr [JStr ''he'']), (''is_fuzzy'', JBool True)]
     = [(''title'', JStr ''Hello''), (''is_fuzzy'', JBool True)] \<and>
   suffix ''_fuzzy'' ''is_fuzzy''"
  by code_simp

text \<open>
  C3 (amended). \<open>fuzzySearch\<close> called with no argument at all throws the \<open>TypeError\<close> of
  source line 375. Called with the empty string as query it throws nothing: it returns the
  query whose search expression is empty.
\<close>

theorem fuzzySearch_no_arguments:
  "fuzzySearch [] = Some (Inl (TypeError
      ''Fuzzy Search: First argument is mandatory and must be a string or an object.'')) \<and>
   (\<exists>c. fuzzySearch (Value (JStr []) # rest) = Some (Inr c) \<and>
        (where_search c = TextSearch [] \<or> (\<exists>opts. where_search c = AndSearch [] opts)))"
proof -
  have "fuzzySearch [] = Some (Inl (TypeError
      ''Fuzzy Search: First argument is mandatory and must be a string or an object.''))"
    by (simp add: fuzzySearch_def arg_at_def)
  moreover have "\<exists>c. fuzzySearch (Value (JStr []) # rest) = Some (Inr c) \<and>
        (where_search c = TextSearch [] \<or> (\<exists>opts. where_search c = AndSearch [] opts))"
    by (simp add: fuzzySearch_def arg_at_def makeNGrams_empty_string Let_def
        split: option.splits)
  ultimately show ?thesis by (rule conjI)
qed

text \<open>The theorem at the arguments \<open>("", callback)\<close>.\<close>

theorem fuzzySearch_no_arguments_witness:
  "fuzzySearch [] = Some (Inl (TypeError
      ''Fuzzy Search: First argument is mandatory and must be a string or an object.'')) \<and>
   fuzzySearch [Value (JStr []), Function 7] =
     Some (Inr \<lparr>where_search = TextSearch [], callback = Some 7\<rparr>)"
proof -
  have "fuzzySearch [Value (JStr []), Function 7] =
     Some (Inr \<lparr>where_search = TextSearch [], callback = Some 7\<rparr>)"
    by code_simp
  then show ?thesis
    using fuzzySearch_no_arguments[of "[Function 7]"] by simp
qed

text \<open>C3 as stated fails at the single argument \<open>""\<close>: the call returns a query.\<close>

theorem fuzzySearch_empty_string_counterexample:
  "fuzzySearch [Value (JStr [])] = Some (Inr \<lparr>where_search = TextSearch [], callback = None\<rparr>)"
  by code_simp

text \<open>
  C4. At the field list \<open>[{name: "tags", keys: "label"}]\<close> the plugin passes the check of
  source lines 331 to 339 and then throws in \<open>createFields\<close>, where \<open>item.keys.forEach\<close> is
  called on the string; \<open>createNGrams\<close> throws at the same call. With \<open>keys: ["label"]\<close>
  the schema is built and the document is indexed.
\<close>

theorem plugin_string_keys:
  "plugin \<lparr>paths = [], indexes = [], toObject = None, toJSON = None, pre_hooks = [], statics = []\<rparr>
     (Some \<lparr>opt_fields = Some (FieldsArray [FieldObject \<lparr>name = ''tags'',
        keys = Some (KeysString ''label''), weight = None, minSize = None, prefixOnly = None,
        escapeSpecialCharacters = None\<rparr>]), opt_language_override = None\<rparr>)
     = Inl (TypeError ''item.keys.forEach is not a function'') \<and>
   (\<exists>sch. plugin \<lparr>paths = [], indexes = [], toObject = None, toJSON = None, pre_hooks = [], statics = []\<rparr>
     (Some \<lparr>opt_fields = Some (FieldsArray [FieldObject \<lparr>name = ''tags'',
        keys = Some (KeysArray [''label'']), weight = None, minSize = None, prefixOnly = None,
        escapeSpecialCharacters = None\<rparr>]), opt_language_override = None\<rparr>) = Inr sch \<and>
      paths sch = [(''tags_fuzzy'', MixedPath)] \<and>
      map index_fields (indexes sch) = [[(''tags_fuzzy.label_fuzzy'', ''text'')]]) \<and>
   createNGrams [(''tags'', JArr [JObj [(''label'', JStr ''ab'')]])]
     [FieldObject \<lparr>name = ''tags'',
        keys = Some (KeysString ''label''), weight = None, minSize = None, prefixOnly = None,
        escapeSpecialCharacters = None\<rparr>]
     = Some (Inl (TypeError ''item.keys.forEach is not a function'')) \<and>
   createNGrams [(''tags'', JArr [JObj [(''label'', JStr ''ab'')]])]
     [FieldObject \<lparr>name = ''tags'',
        keys = Some (KeysArray [''label'']), weight = None, minSize = None, prefixOnly = None,
        escapeSpecialCharacters = None\<rparr>]
     = Some (Inr [(''tags'', JArr [JObj [(''label'', JStr ''ab'')]]),
                  (''tags_fuzzy'', JArr [JObj [(''label_fuzzy'', JArr [JStr ''ab''])]])])"
proof (intro conjI)
  show "plugin \<lparr>paths = [], indexes = [], toObject = None, toJSON = None, pre_hooks = [], statics = []\<rparr>
     (Some \<lparr>opt_fields = Some (FieldsArray [FieldObject \<lparr>name = ''tags'',
        keys = Some (KeysString ''label''), weight = None, minSize = None, prefixOnly = None,
        escapeSpecialCharacters = None\<rparr>]), opt_language_override = None\<rparr>)
     = Inl (TypeError ''item.keys.forEach is not a function'')"
    by (simp add: plugin_def createFields_def)
  show "\<exists>sch. plugin \<lparr>paths = [], indexes = [], toObject = None, toJSON = None, pre_hooks = [], statics = []\<rparr>
     (Some \<lparr>opt_fields = Some (FieldsArray [FieldObject \<lparr>name = ''tags'',
        keys = Some (KeysArray [''label'']), weight = None, minSize = None, prefixOnly = None,
        escapeSpecialCharacters = None\<rparr>]), opt_language_override = None\<rparr>) = Inr sch \<and>
      paths sch = [(''tags_fuzzy'', MixedPath)] \<and>
      map index_fields (indexes sch) = [[(''tags_fuzzy.label_fuzzy'', ''text'')]]"
    by (simp add: plugin_def createFields_def Let_def schema_add_def addArrayToSchema_def fuzzy_def)
qed code_simp+

end
